theory Spec2Isabelle
  imports Main
begin

section \<open>The Skill Waiting List page (src/pages/WaitingList.tsx)\<close>

text \<open>
  The page is a React component: a handful of state cells, four asynchronous handlers
  and a render function. Each handler is embedded as the sequence of effects it
  performs, in program order: calls of the state setters, calls of the remote API,
  toasts and console output. The state after a handler is the state it started from
  with the setter calls applied in that order.

  The remote operations (\<open>fetchWaitingListEntries\<close>, \<open>addToWaitingList\<close>,
  \<open>removeFromWaitingList\<close> of \<open>@/lib/api/waitingList\<close>, and the store client's
  \<open>insert\<close> and \<open>select\<close>) are not part of the page. Their outcomes are a parameter
  of every handler: each awaited promise is settled, either resolved with a value or
  rejected with an error.
\<close>

subsection \<open>Strings\<close>

text \<open>
  A JavaScript string is modelled as a list of characters. The page does four things
  with strings: it compares them (\<open>===\<close>), tests them for emptiness (\<open>!s\<close>), appends
  them (a template literal), and calls two methods of the JavaScript runtime on them,
  \<open>String.prototype.toLowerCase\<close> and \<open>String.prototype.trim\<close>, whose results follow
  the Unicode tables of the runtime. The two methods are a parameter of the handlers.
  The theorems below hold for every runtime, and so for every way of writing
  JavaScript strings as character lists that keeps equality, emptiness and
  concatenation.
\<close>

record runtime =
  toLowerCase :: "string \<Rightarrow> string"
  trim :: "string \<Rightarrow> string"

subsection \<open>Data\<close>

text \<open>\<open>interface SkillItem { id: string; name: string }\<close>\<close>

record SkillItem =
  skill_id :: string
  skill_name :: string

text \<open>
  \<open>WaitingListEntry\<close> is imported by the page; these are the fields the page reads.
\<close>

record WaitingListEntry =
  entry_id :: string
  desired_skill :: string
  created_at :: string

text \<open>The signed-in user of \<open>useAuth()\<close>: \<open>user.id\<close> and the optional \<open>user.email\<close>.\<close>

record user =
  user_id :: string
  user_email :: "string option"

text \<open>The row passed to \<open>supabase.from('user_skills').insert\<close>.\<close>

record user_skills_row =
  row_user_id :: string
  row_skill_id :: string
  row_type :: string

text \<open>The argument of \<open>toast\<close>; \<open>variant\<close> is optional.\<close>

record toast =
  title :: string
  toast_description :: string
  variant :: "string option"

text \<open>The cells of \<open>useState\<close>, with their initial values.\<close>

record page_state =
  waitingSkills :: "WaitingListEntry list"
  isLoading :: bool
  availableSkills :: "SkillItem list"
  newSkill :: string
  skillName :: string
  category :: string
  description :: string
  notify :: bool

definition initial_state :: page_state where
  "initial_state =
     \<lparr>waitingSkills = [], isLoading = False, availableSkills = [], newSkill = [],
      skillName = [], category = [], description = [], notify = True\<rparr>"

subsection \<open>The remote operations\<close>

text \<open>A thrown or returned error value.\<close>

datatype js_error = Error string

text \<open>The outcome of an awaited promise.\<close>

datatype 'a promise = Resolved 'a | Rejected js_error

text \<open>
  The outcomes of the remote operations, as functions of their arguments.
  \<open>insert_user_skills\<close> resolves with the \<open>error\<close> field of the store's response
  (\<open>None\<close> for \<open>null\<close>); \<open>select_skills\<close> with its \<open>data\<close> and \<open>error\<close> fields;
  \<open>addToWaitingList\<close> with the \<open>success\<close> field of its result.
\<close>

record remote =
  fetchWaitingListEntries :: "WaitingListEntry list promise"
  addToWaitingList :: "string \<Rightarrow> string \<Rightarrow> string option \<Rightarrow> string \<Rightarrow> bool promise"
  removeFromWaitingList :: "string \<Rightarrow> unit promise"
  insert_user_skills :: "user_skills_row \<Rightarrow> js_error option promise"
  select_skills :: "(SkillItem list option \<times> js_error option) promise"

subsection \<open>Effects\<close>

datatype event =
    SetWaitingSkills "WaitingListEntry list"
  | SetWaitingSkills_filter string
  | SetIsLoading bool
  | SetAvailableSkills "SkillItem list"
  | SetNewSkill string
  | SetSkillName string
  | SetCategory string
  | SetDescription string
  | Call_fetchWaitingListEntries
  | Call_addToWaitingList string string "string option" string
  | Call_removeFromWaitingList string
  | Call_insert_user_skills user_skills_row
  | Call_select_skills
  | Toast toast
  | ConsoleError string js_error
  | PreventDefault

text \<open>
  \<open>SetWaitingSkills_filter i\<close> is the functional update
  \<open>setWaitingSkills(prev => prev.filter(ws => ws.id !== i))\<close>.
\<close>

fun apply_event :: "page_state \<Rightarrow> event \<Rightarrow> page_state" where
  "apply_event s (SetWaitingSkills d) = s\<lparr>waitingSkills := d\<rparr>"
| "apply_event s (SetWaitingSkills_filter i) =
     s\<lparr>waitingSkills := filter (\<lambda>ws. entry_id ws \<noteq> i) (waitingSkills s)\<rparr>"
| "apply_event s (SetIsLoading b) = s\<lparr>isLoading := b\<rparr>"
| "apply_event s (SetAvailableSkills d) = s\<lparr>availableSkills := d\<rparr>"
| "apply_event s (SetNewSkill v) = s\<lparr>newSkill := v\<rparr>"
| "apply_event s (SetSkillName v) = s\<lparr>skillName := v\<rparr>"
| "apply_event s (SetCategory v) = s\<lparr>category := v\<rparr>"
| "apply_event s (SetDescription v) = s\<lparr>description := v\<rparr>"
| "apply_event s _ = s"

definition run :: "page_state \<Rightarrow> event list \<Rightarrow> page_state" where
  "run s es = foldl apply_event s es"

fun is_remote_call :: "event \<Rightarrow> bool" where
  "is_remote_call Call_fetchWaitingListEntries = True"
| "is_remote_call (Call_addToWaitingList e n c u) = True"
| "is_remote_call (Call_removeFromWaitingList i) = True"
| "is_remote_call (Call_insert_user_skills row) = True"
| "is_remote_call Call_select_skills = True"
| "is_remote_call _ = False"

definition remote_calls :: "event list \<Rightarrow> event list" where
  "remote_calls es = filter is_remote_call es"

fun is_toast :: "event \<Rightarrow> bool" where
  "is_toast (Toast t) = True"
| "is_toast _ = False"

definition toasts :: "event list \<Rightarrow> event list" where
  "toasts es = filter is_toast es"

fun is_insert :: "event \<Rightarrow> bool" where
  "is_insert (Call_insert_user_skills row) = True"
| "is_insert _ = False"

subsection \<open>Loading\<close>

definition fetchWaitingSkills :: "remote \<Rightarrow> event list" where
  "fetchWaitingSkills r =
     [SetIsLoading True, Call_fetchWaitingListEntries] @
     (case fetchWaitingListEntries r of
        Resolved data \<Rightarrow> [SetWaitingSkills data]
      | Rejected error \<Rightarrow>
          [ConsoleError ''Error fetching waiting skills:'' error,
           Toast \<lparr>title = ''Error'', toast_description = ''Failed to load waiting skills'',
                  variant = Some ''destructive''\<rparr>]) @
     [SetIsLoading False]"

definition fetchAvailableSkills :: "remote \<Rightarrow> event list" where
  "fetchAvailableSkills r =
     [Call_select_skills] @
     (case select_skills r of
        Resolved (data, None) \<Rightarrow>
          [SetAvailableSkills (case data of None \<Rightarrow> [] | Some d \<Rightarrow> d)]
      | Resolved (data, Some error) \<Rightarrow> [ConsoleError ''Error fetching available skills:'' error]
      | Rejected error \<Rightarrow> [ConsoleError ''Error fetching available skills:'' error])"

subsection \<open>Offer to teach\<close>

text \<open>
  The body of the \<open>try\<close> block of \<open>handleTeachSkill\<close> after \<open>setIsLoading(true)\<close>:
  its effects, and the error it throws, if any.
\<close>

definition handleTeachSkill_remove ::
  "remote \<Rightarrow> WaitingListEntry \<Rightarrow> event list \<times> js_error option" where
  "handleTeachSkill_remove r waitingSkill =
     (case removeFromWaitingList r (entry_id waitingSkill) of
        Rejected error \<Rightarrow> ([Call_removeFromWaitingList (entry_id waitingSkill)], Some error)
      | Resolved _ \<Rightarrow>
          ([Call_removeFromWaitingList (entry_id waitingSkill),
            SetWaitingSkills_filter (entry_id waitingSkill),
            Toast \<lparr>title = ''Success'',
                   toast_description =
                     ''You've offered to teach '' @ desired_skill waitingSkill,
                   variant = Some ''default''\<rparr>], None))"

text \<open>
  \<open>availableSkills.find(skill => skill.name.toLowerCase() ===
  waitingSkill.desired_skill.toLowerCase())\<close>: the first catalog item whose lower-cased
  name equals the lower-cased wanted skill, \<open>None\<close> for \<open>undefined\<close>.
\<close>

definition find_skillItem ::
  "runtime \<Rightarrow> SkillItem list \<Rightarrow> WaitingListEntry \<Rightarrow> SkillItem option" where
  "find_skillItem js skills waitingSkill =
     find (\<lambda>skill. toLowerCase js (skill_name skill) =
                     toLowerCase js (desired_skill waitingSkill)) skills"

definition handleTeachSkill_try ::
  "runtime \<Rightarrow> user \<Rightarrow> remote \<Rightarrow> page_state \<Rightarrow> WaitingListEntry \<Rightarrow>
   event list \<times> js_error option" where
  "handleTeachSkill_try js u r s waitingSkill =
     (case find_skillItem js (availableSkills s) waitingSkill of
        None \<Rightarrow> handleTeachSkill_remove r waitingSkill
      | Some skillItem \<Rightarrow>
          (let row = \<lparr>row_user_id = user_id u, row_skill_id = skill_id skillItem,
                      row_type = ''teach''\<rparr>
           in case insert_user_skills r row of
                Rejected error \<Rightarrow> ([Call_insert_user_skills row], Some error)
              | Resolved (Some insertError) \<Rightarrow> ([Call_insert_user_skills row], Some insertError)
              | Resolved None \<Rightarrow>
                  (case handleTeachSkill_remove r waitingSkill of
                     (es, thrown) \<Rightarrow> (Call_insert_user_skills row # es, thrown))))"

definition handleTeachSkill ::
  "runtime \<Rightarrow> user option \<Rightarrow> remote \<Rightarrow> page_state \<Rightarrow> WaitingListEntry \<Rightarrow> event list" where
  "handleTeachSkill js usr r s waitingSkill =
     (case usr of
        None \<Rightarrow> []
      | Some u \<Rightarrow>
          [SetIsLoading True] @
          (case handleTeachSkill_try js u r s waitingSkill of
             (es, None) \<Rightarrow> es
           | (es, Some error) \<Rightarrow>
               es @
               [ConsoleError ''Error offering skill:'' error,
                Toast \<lparr>title = ''Error'',
                       toast_description = ''Could not offer this skill. Please try again.'',
                       variant = Some ''destructive''\<rparr>]) @
          [SetIsLoading False])"

subsection \<open>Submitting a request\<close>

text \<open>\<open>user.email || ''\<close>\<close>

definition email_or_empty :: "user \<Rightarrow> string" where
  "email_or_empty u = (case user_email u of None \<Rightarrow> [] | Some e \<Rightarrow> e)"

definition handleAddToWaitingList ::
  "runtime \<Rightarrow> user option \<Rightarrow> remote \<Rightarrow> page_state \<Rightarrow> event list" where
  "handleAddToWaitingList js usr r s =
     (case usr of
        None \<Rightarrow> []
      | Some u \<Rightarrow>
          if trim js (newSkill s) = [] then []
          else
            [SetIsLoading True,
             Call_addToWaitingList (email_or_empty u) (trim js (newSkill s)) None (user_id u)] @
            (case addToWaitingList r (email_or_empty u) (trim js (newSkill s)) None (user_id u) of
               Resolved success \<Rightarrow>
                 if success then
                   fetchWaitingSkills r @
                   [SetNewSkill [],
                    Toast \<lparr>title = ''Success'',
                           toast_description = ''Skill added to waiting list'',
                           variant = None\<rparr>]
                 else []
             | Rejected error \<Rightarrow>
                 [ConsoleError ''Error adding to waiting list:'' error,
                  Toast \<lparr>title = ''Error'',
                         toast_description = ''Failed to add skill to waiting list'',
                         variant = Some ''destructive''\<rparr>]) @
            [SetIsLoading False])"

definition handleAddSkill ::
  "runtime \<Rightarrow> user option \<Rightarrow> remote \<Rightarrow> page_state \<Rightarrow> event list" where
  "handleAddSkill js usr r s =
     PreventDefault #
     (case usr of
        None \<Rightarrow>
          [Toast \<lparr>title = ''Error'',
                  toast_description = ''Please sign in to add a skill to the waiting list'',
                  variant = Some ''destructive''\<rparr>]
      | Some u \<Rightarrow>
          if trim js (skillName s) = [] \<or> category s = [] then
            [Toast \<lparr>title = ''Error'',
                    toast_description = ''Please fill in all required fields'',
                    variant = Some ''destructive''\<rparr>]
          else
            [SetIsLoading True,
             Call_addToWaitingList (email_or_empty u) (trim js (skillName s))
               (Some (category s)) (user_id u)] @
            (case addToWaitingList r (email_or_empty u) (trim js (skillName s))
                    (Some (category s)) (user_id u) of
               Resolved success \<Rightarrow>
                 if success then
                   fetchWaitingSkills r @
                   [SetSkillName [], SetCategory [], SetDescription [],
                    Toast \<lparr>title = ''Success'',
                           toast_description = ''Skill added to waiting list'',
                           variant = None\<rparr>]
                 else []
             | Rejected error \<Rightarrow>
                 [ConsoleError ''Error adding to waiting list:'' error,
                  Toast \<lparr>title = ''Error'',
                         toast_description = ''Failed to add skill to waiting list'',
                         variant = Some ''destructive''\<rparr>]) @
            [SetIsLoading False])"

subsection \<open>Operations in flight\<close>

text \<open>The effect sequences of the four operations that touch the loading flag.\<close>

inductive_set operation_traces :: "event list set" where
  load: "fetchWaitingSkills r \<in> operation_traces"
| quick_add: "handleAddToWaitingList js usr r s \<in> operation_traces"
| full_form: "handleAddSkill js usr r s \<in> operation_traces"
| teach_offer: "handleTeachSkill js usr r s waitingSkill \<in> operation_traces"

text \<open>
  Several operations may be in flight at once; the effects of the page are then an
  interleaving of theirs. \<open>interleaving ts es\<close>: \<open>es\<close> is a merge of the sequences
  \<open>ts\<close> that keeps the order within each.
\<close>

fun interleaving :: "'a list list \<Rightarrow> 'a list \<Rightarrow> bool" where
  "interleaving ts [] = (\<forall>t \<in> set ts. t = [])"
| "interleaving ts (e # es) =
     (\<exists>i < length ts. ts ! i \<noteq> [] \<and> hd (ts ! i) = e \<and> interleaving (ts[i := tl (ts ! i)]) es)"

text \<open>The argument of the last \<open>setIsLoading\<close> call of a sequence, if there is one.\<close>

fun last_loading :: "event list \<Rightarrow> bool option" where
  "last_loading [] = None"
| "last_loading (e # es) =
     (case last_loading es of
        Some b \<Rightarrow> Some b
      | None \<Rightarrow> (case e of SetIsLoading b \<Rightarrow> Some b | _ \<Rightarrow> None))"

subsection \<open>Example data\<close>

text \<open>
  A runtime for the examples. Its strings are read as Latin-1: one character for each
  code point below 256. On such strings \<open>toLowerCase\<close> maps \<open>A\<close>..\<open>Z\<close> and
  U+00C0..U+00DE (but not the multiplication sign U+00D7) to the letter 32 code points
  later and keeps every other character, and \<open>trim\<close> strips tab, line feed, vertical
  tab, form feed, carriage return, space and the no-break space U+00A0 from both ends.
\<close>

definition latin1_upper :: string where
  "latin1_upper =
     ''ABCDEFGHIJKLMNOPQRSTUVWXYZ'' @
     [CHR 0xC0, CHR 0xC1, CHR 0xC2, CHR 0xC3, CHR 0xC4, CHR 0xC5, CHR 0xC6, CHR 0xC7,
     CHR 0xC8, CHR 0xC9, CHR 0xCA, CHR 0xCB, CHR 0xCC, CHR 0xCD, CHR 0xCE, CHR 0xCF, CHR
     0xD0, CHR 0xD1, CHR 0xD2, CHR 0xD3, CHR 0xD4, CHR 0xD5, CHR 0xD6, CHR 0xD8, CHR
     0xD9, CHR 0xDA, CHR 0xDB, CHR 0xDC, CHR 0xDD, CHR 0xDE]"

definition latin1_lower :: string where
  "latin1_lower =
     ''abcdefghijklmnopqrstuvwxyz'' @
     [CHR 0xE0, CHR 0xE1, CHR 0xE2, CHR 0xE3, CHR 0xE4, CHR 0xE5, CHR 0xE6, CHR 0xE7,
     CHR 0xE8, CHR 0xE9, CHR 0xEA, CHR 0xEB, CHR 0xEC, CHR 0xED, CHR 0xEE, CHR 0xEF, CHR
     0xF0, CHR 0xF1, CHR 0xF2, CHR 0xF3, CHR 0xF4, CHR 0xF5, CHR 0xF6, CHR 0xF8, CHR
     0xF9, CHR 0xFA, CHR 0xFB, CHR 0xFC, CHR 0xFD, CHR 0xFE]"

definition latin1_toLowerCase :: "string \<Rightarrow> string" where
  "latin1_toLowerCase s =
     map (\<lambda>c. case map_of (zip latin1_upper latin1_lower) c of None \<Rightarrow> c | Some l \<Rightarrow> l) s"

definition latin1_space :: "char \<Rightarrow> bool" where
  "latin1_space c \<longleftrightarrow>
     c \<in> set [CHR 0x09, CHR 0x0A, CHR 0x0B, CHR 0x0C, CHR 0x0D, CHR 0x20, CHR 0xA0]"

definition latin1_trim :: "string \<Rightarrow> string" where
  "latin1_trim s = rev (dropWhile latin1_space (rev (dropWhile latin1_space s)))"

definition latin1_runtime :: runtime where
  "latin1_runtime = \<lparr>toLowerCase = latin1_toLowerCase, trim = latin1_trim\<rparr>"

definition ex_user :: user where
  "ex_user = \<lparr>user_id = ''u1'', user_email = Some ''ann@example.org''\<rparr>"

definition ex_entry :: WaitingListEntry where
  "ex_entry =
     \<lparr>entry_id = ''w1'', desired_skill = ''Pottery'', created_at = ''2024-01-01T00:00:00Z''\<rparr>"

definition ex_entry_unlisted :: WaitingListEntry where
  "ex_entry_unlisted =
     \<lparr>entry_id = ''w2'', desired_skill = ''Juggling'', created_at = ''2024-01-02T00:00:00Z''\<rparr>"

text \<open>Two catalog items match \<open>Pottery\<close>; the first of them is \<open>s2\<close>.\<close>

definition ex_catalog :: "SkillItem list" where
  "ex_catalog =
     [\<lparr>skill_id = ''s1'', skill_name = ''Chess''\<rparr>,
      \<lparr>skill_id = ''s2'', skill_name = ''POTTERY''\<rparr>,
      \<lparr>skill_id = ''s3'', skill_name = ''pottery''\<rparr>]"

definition ex_state :: page_state where
  "ex_state =
     \<lparr>waitingSkills = [ex_entry, ex_entry_unlisted], isLoading = False,
      availableSkills = ex_catalog, newSkill = '' Knitting '', skillName = ''Pottery '',
      category = ''Arts & Crafts'', description = ''wheel throwing'', notify = False\<rparr>"

definition ex_state_no_category :: page_state where
  "ex_state_no_category = ex_state\<lparr>category := []\<rparr>"

text \<open>A skill name of a space and a no-break space.\<close>

definition ex_state_blank_name :: page_state where
  "ex_state_blank_name = ex_state\<lparr>skillName := [CHR 0x20, CHR 0xA0]\<rparr>"

definition ok_remote :: remote where
  "ok_remote =
     \<lparr>fetchWaitingListEntries = Resolved [ex_entry_unlisted],
      addToWaitingList = (\<lambda>email skill cat uid. Resolved True),
      removeFromWaitingList = (\<lambda>i. Resolved ()),
      insert_user_skills = (\<lambda>row. Resolved None),
      select_skills = Resolved (Some ex_catalog, None)\<rparr>"

text \<open>The store refuses the association with \<open>s2\<close> and accepts every other one.\<close>

definition insert_fails_remote :: remote where
  "insert_fails_remote =
     ok_remote\<lparr>insert_user_skills :=
       (\<lambda>row. if row_skill_id row = ''s2'' then Resolved (Some (Error ''duplicate key''))
              else Resolved None)\<rparr>"

definition remove_fails_remote :: remote where
  "remove_fails_remote =
     ok_remote\<lparr>removeFromWaitingList := (\<lambda>i. Rejected (Error ''offline''))\<rparr>"

definition fetch_fails_remote :: remote where
  "fetch_fails_remote = ok_remote\<lparr>fetchWaitingListEntries := Rejected (Error ''offline'')\<rparr>"

definition add_refused_remote :: remote where
  "add_refused_remote =
     ok_remote\<lparr>addToWaitingList := (\<lambda>email skill cat uid. Resolved False)\<rparr>"

lemmas ex_defs =
  ex_user_def ex_entry_def ex_entry_unlisted_def ex_catalog_def ex_state_def
  ex_state_no_category_def ex_state_blank_name_def ok_remote_def insert_fails_remote_def
  remove_fails_remote_def fetch_fails_remote_def add_refused_remote_def

lemmas string_defs =
  latin1_runtime_def latin1_toLowerCase_def latin1_trim_def latin1_space_def
  latin1_upper_def latin1_lower_def

section \<open>Properties\<close>

subsection \<open>Auxiliary facts\<close>

lemma run_Nil [simp]: "run s [] = s"
  by (simp add: run_def)

lemma run_Cons [simp]: "run s (e # es) = run (apply_event s e) es"
  by (simp add: run_def)

lemma run_append [simp]: "run s (xs @ ys) = run (run s xs) ys"
  by (simp add: run_def)

lemma remote_calls_Nil [simp]: "remote_calls [] = []"
  by (simp add: remote_calls_def)

lemma remote_calls_Cons [simp]:
  "remote_calls (e # es) = (if is_remote_call e then e # remote_calls es else remote_calls es)"
  by (simp add: remote_calls_def)

lemma remote_calls_append [simp]: "remote_calls (xs @ ys) = remote_calls xs @ remote_calls ys"
  by (simp add: remote_calls_def)

lemma toasts_Nil [simp]: "toasts [] = []"
  by (simp add: toasts_def)

lemma toasts_Cons [simp]:
  "toasts (e # es) = (if is_toast e then e # toasts es else toasts es)"
  by (simp add: toasts_def)

lemma toasts_append [simp]: "toasts (xs @ ys) = toasts xs @ toasts ys"
  by (simp add: toasts_def)

lemma run_fetchWaitingSkills:
  "run s (fetchWaitingSkills r) =
     s\<lparr>waitingSkills :=
          (case fetchWaitingListEntries r of
             Resolved data \<Rightarrow> data
           | Rejected error \<Rightarrow> waitingSkills s),
       isLoading := False\<rparr>"
  by (cases "fetchWaitingListEntries r") (simp_all add: fetchWaitingSkills_def)

lemma remote_calls_fetchWaitingSkills:
  "remote_calls (fetchWaitingSkills r) = [Call_fetchWaitingListEntries]"
  by (cases "fetchWaitingListEntries r") (simp_all add: fetchWaitingSkills_def)

lemma last_loading_append:
  "last_loading (xs @ ys) = (case last_loading ys of Some b \<Rightarrow> Some b | None \<Rightarrow> last_loading xs)"
  by (induction xs) (auto split: option.splits)

lemma isLoading_apply_event:
  "isLoading (apply_event s e) = (case e of SetIsLoading b \<Rightarrow> b | _ \<Rightarrow> isLoading s)"
  by (cases e) simp_all

lemma isLoading_run:
  "isLoading (run s es) = (case last_loading es of None \<Rightarrow> isLoading s | Some b \<Rightarrow> b)"
  by (induction es arbitrary: s) (auto simp: isLoading_apply_event split: option.splits event.splits)

lemma last_loading_None_iff: "last_loading es = None \<longleftrightarrow> (\<forall>b. SetIsLoading b \<notin> set es)"
  by (induction es) (auto split: option.splits event.splits)

lemma last_loading_fetchWaitingSkills: "last_loading (fetchWaitingSkills r) = Some False"
  by (cases "fetchWaitingListEntries r") (simp_all add: fetchWaitingSkills_def)

lemma operation_resets: "t \<in> operation_traces \<Longrightarrow> last_loading t \<noteq> Some True"
proof (induction rule: operation_traces.induct)
  case (load r)
  show ?case by (simp add: last_loading_fetchWaitingSkills)
next
  case (quick_add js usr r s)
  show ?case
    by (simp add: handleAddToWaitingList_def last_loading_append split: option.splits)
next
  case (full_form js usr r s)
  show ?case
    by (simp add: handleAddSkill_def last_loading_append split: option.splits)
next
  case (teach_offer js usr r s waitingSkill)
  show ?case
    by (simp add: handleTeachSkill_def last_loading_append split: option.splits)
qed

lemma operation_last:
  "t \<in> operation_traces \<Longrightarrow> SetIsLoading True \<in> set t \<Longrightarrow> last t = SetIsLoading False"
proof (induction rule: operation_traces.induct)
  case (load r)
  show ?case by (simp add: fetchWaitingSkills_def)
next
  case (quick_add js usr r s)
  then show ?case
    by (auto simp: handleAddToWaitingList_def split: option.splits if_splits)
next
  case (full_form js usr r s)
  then show ?case
    by (auto simp: handleAddSkill_def split: option.splits if_splits)
next
  case (teach_offer js usr r s waitingSkill)
  then show ?case
    by (auto simp: handleTeachSkill_def split: option.splits)
qed

lemma interleaving_set:
  "interleaving ts es \<Longrightarrow> i < length ts \<Longrightarrow> set (ts ! i) \<subseteq> set es"
proof (induction es arbitrary: ts i)
  case Nil
  then have "ts ! i \<in> set ts" by simp
  with Nil.prems(1) show ?case by simp
next
  case (Cons e es)
  from Cons.prems(1) obtain j where j: "j < length ts" "ts ! j \<noteq> []" "hd (ts ! j) = e"
    and rest: "interleaving (ts[j := tl (ts ! j)]) es"
    by auto
  from j obtain t' where tj: "ts ! j = e # t'" by (cases "ts ! j") auto
  have len: "i < length (ts[j := tl (ts ! j)])" using Cons.prems(2) by simp
  from Cons.IH [OF rest len] have sub: "set ((ts[j := tl (ts ! j)]) ! i) \<subseteq> set es" .
  show ?case
  proof (cases "i = j")
    case True
    with sub j(1) tj have "set t' \<subseteq> set es" by simp
    with True tj show ?thesis by auto
  next
    case False
    with sub show ?thesis by auto
  qed
qed

lemma last_loading_tl: "last_loading t \<noteq> Some True \<Longrightarrow> last_loading (tl t) \<noteq> Some True"
  by (cases t) (auto split: option.splits)

lemma interleaving_resets:
  "interleaving ts es \<Longrightarrow> \<forall>t \<in> set ts. last_loading t \<noteq> Some True \<Longrightarrow>
   last_loading es \<noteq> Some True"
proof (induction es arbitrary: ts)
  case Nil
  show ?case by simp
next
  case (Cons e es)
  from Cons.prems(1) obtain j where j: "j < length ts" "ts ! j \<noteq> []" "hd (ts ! j) = e"
    and rest: "interleaving (ts[j := tl (ts ! j)]) es"
    by auto
  from j obtain t' where tj: "ts ! j = e # t'" by (cases "ts ! j") auto
  have rj: "last_loading (e # t') \<noteq> Some True" using Cons.prems(2) j(1) tj nth_mem by metis
  have "\<forall>t \<in> set (ts[j := tl (ts ! j)]). last_loading t \<noteq> Some True"
  proof
    fix t assume "t \<in> set (ts[j := tl (ts ! j)])"
    then have "t = tl (ts ! j) \<or> t \<in> set ts"
      using set_update_subset_insert [of ts j "tl (ts ! j)"] by auto
    moreover have "last_loading (tl (ts ! j)) \<noteq> Some True"
      using rj tj last_loading_tl [of "e # t'"] by simp
    ultimately show "last_loading t \<noteq> Some True"
      using Cons.prems(2) by auto
  qed
  from Cons.IH [OF rest this] have IH: "last_loading es \<noteq> Some True" .
  show ?case
  proof (cases "last_loading es")
    case (Some b)
    with IH show ?thesis by simp
  next
    case None
    have "j < length (ts[j := tl (ts ! j)])" using j(1) by simp
    from interleaving_set [OF rest this] have "set t' \<subseteq> set es"
      using j(1) tj by simp
    with None have "last_loading t' = None"
      unfolding last_loading_None_iff by blast
    with rj have "e \<noteq> SetIsLoading True" by auto
    with None show ?thesis by (cases e) auto
  qed
qed

lemma interleaving_left: "interleaving [xs, ys] es \<Longrightarrow> interleaving [e # xs, ys] (e # es)"
proof -
  assume "interleaving [xs, ys] es"
  then have "[e # xs, ys] ! 0 \<noteq> [] \<and> hd ([e # xs, ys] ! 0) = e \<and>
    interleaving ([e # xs, ys][0 := tl ([e # xs, ys] ! 0)]) es"
    by simp
  then show ?thesis
    unfolding interleaving.simps by (intro exI [of _ 0] conjI) simp_all
qed

lemma interleaving_right: "interleaving [xs, ys] es \<Longrightarrow> interleaving [xs, e # ys] (e # es)"
proof -
  assume "interleaving [xs, ys] es"
  then have "[xs, e # ys] ! 1 \<noteq> [] \<and> hd ([xs, e # ys] ! 1) = e \<and>
    interleaving ([xs, e # ys][1 := tl ([xs, e # ys] ! 1)]) es"
    by simp
  then show ?thesis
    unfolding interleaving.simps by (intro exI [of _ 1] conjI) simp_all
qed

lemma first_match_exists:
  "\<exists>x \<in> set xs. P x \<Longrightarrow> \<exists>i < length xs. P (xs ! i) \<and> (\<forall>j < i. \<not> P (xs ! j))"
proof -
  assume "\<exists>x \<in> set xs. P x"
  then have "find P xs \<noteq> None" by (auto simp add: find_None_iff)
  then obtain x where "find P xs = Some x" by blast
  then show ?thesis unfolding find_Some_iff by blast
qed

lemma find_skillItem_first:
  "i < length skills \<Longrightarrow>
   toLowerCase js (skill_name (skills ! i)) = toLowerCase js (desired_skill waitingSkill) \<Longrightarrow>
   \<forall>j < i. toLowerCase js (skill_name (skills ! j)) \<noteq>
     toLowerCase js (desired_skill waitingSkill) \<Longrightarrow>
   find_skillItem js skills waitingSkill = Some (skills ! i)"
  unfolding find_skillItem_def find_Some_iff by blast

lemma find_skillItem_none:
  "\<forall>skill \<in> set skills.
     toLowerCase js (skill_name skill) \<noteq> toLowerCase js (desired_skill waitingSkill) \<Longrightarrow>
   find_skillItem js skills waitingSkill = None"
  by (simp add: find_skillItem_def find_None_iff)

lemma ex_lower:
  "toLowerCase latin1_runtime ''Chess'' = ''chess''"
  "toLowerCase latin1_runtime ''POTTERY'' = ''pottery''"
  "toLowerCase latin1_runtime ''pottery'' = ''pottery''"
  "toLowerCase latin1_runtime ''Pottery'' = ''pottery''"
  "toLowerCase latin1_runtime ''Juggling'' = ''juggling''"
  by (simp_all add: string_defs)

lemma ex_trim:
  "trim latin1_runtime '' Knitting '' = ''Knitting''"
  "trim latin1_runtime ''Pottery '' = ''Pottery''"
  "trim latin1_runtime [CHR 0x20, CHR 0xA0] = []"
  by (simp_all add: string_defs)

lemma ex_first_match:
  "1 < length (availableSkills ex_state)"
  "toLowerCase latin1_runtime (skill_name (availableSkills ex_state ! 1)) =
     toLowerCase latin1_runtime (desired_skill ex_entry)"
  "\<forall>j < 1. toLowerCase latin1_runtime (skill_name (availableSkills ex_state ! j)) \<noteq>
     toLowerCase latin1_runtime (desired_skill ex_entry)"
  "skill_id (availableSkills ex_state ! 1) = ''s2''"
  by (simp_all add: ex_defs ex_lower)

lemma ex_match:
  "find_skillItem latin1_runtime (availableSkills ex_state) ex_entry =
     Some \<lparr>skill_id = ''s2'', skill_name = ''POTTERY''\<rparr>"
  by (simp add: find_skillItem_def ex_defs ex_lower)

lemma ex_no_match:
  "\<forall>skill \<in> set (availableSkills ex_state).
     toLowerCase latin1_runtime (skill_name skill) \<noteq>
     toLowerCase latin1_runtime (desired_skill ex_entry_unlisted)"
  by (simp add: ex_defs ex_lower)

subsection \<open>Offer to teach\<close>

text \<open>
  C1. A signed-in user offers to teach an entry, and some catalog item has the same
  name as the entry's \<open>desired_skill\<close> after \<open>toLowerCase\<close>. Let \<open>i\<close> be the position
  of the first such item. The handler issues exactly one insert into \<open>user_skills\<close>,
  with the user's id, the id of item \<open>i\<close> and the type \<open>teach\<close>. The removal of the
  entry from the remote store is requested after the insert and only if the insert
  succeeded. When the removal succeeds as well, the effects are exactly: insert,
  remote removal, removal from the cached list by id, success toast; and the cached
  list afterwards is the old one without the entries of that id. In every other case
  the cached list is unchanged.
\<close>

theorem teach_offer_match:
  "\<exists>skill \<in> set (availableSkills s).
     toLowerCase js (skill_name skill) = toLowerCase js (desired_skill waitingSkill) \<Longrightarrow>
   \<exists>i < length (availableSkills s).
     toLowerCase js (skill_name (availableSkills s ! i)) =
       toLowerCase js (desired_skill waitingSkill) \<and>
     (\<forall>j < i. toLowerCase js (skill_name (availableSkills s ! j)) \<noteq>
        toLowerCase js (desired_skill waitingSkill)) \<and>
     (let row = \<lparr>row_user_id = user_id u, row_skill_id = skill_id (availableSkills s ! i),
                  row_type = ''teach''\<rparr>;
          inserted = (insert_user_skills r row = Resolved None);
          removed = (removeFromWaitingList r (entry_id waitingSkill) = Resolved ());
          T = handleTeachSkill js (Some u) r s waitingSkill
      in filter is_insert T = [Call_insert_user_skills row] \<and>
         remote_calls T =
           (if inserted
            then [Call_insert_user_skills row,
                  Call_removeFromWaitingList (entry_id waitingSkill)]
            else [Call_insert_user_skills row]) \<and>
         (inserted \<and> removed \<longrightarrow>
            T = [SetIsLoading True, Call_insert_user_skills row,
                 Call_removeFromWaitingList (entry_id waitingSkill),
                 SetWaitingSkills_filter (entry_id waitingSkill),
                 Toast \<lparr>title = ''Success'',
                        toast_description =
                          ''You've offered to teach '' @ desired_skill waitingSkill,
                        variant = Some ''default''\<rparr>,
                 SetIsLoading False]) \<and>
         waitingSkills (run s T) =
           (if inserted \<and> removed
            then filter (\<lambda>ws. entry_id ws \<noteq> entry_id waitingSkill) (waitingSkills s)
            else waitingSkills s))"
proof -
  assume "\<exists>skill \<in> set (availableSkills s).
     toLowerCase js (skill_name skill) = toLowerCase js (desired_skill waitingSkill)"
  from first_match_exists [OF this] obtain i where i: "i < length (availableSkills s)"
    and m: "toLowerCase js (skill_name (availableSkills s ! i)) =
      toLowerCase js (desired_skill waitingSkill)"
    and n: "\<forall>j < i. toLowerCase js (skill_name (availableSkills s ! j)) \<noteq>
      toLowerCase js (desired_skill waitingSkill)"
    by blast
  have f: "find_skillItem js (availableSkills s) waitingSkill = Some (availableSkills s ! i)"
    by (rule find_skillItem_first [OF i m n])
  show ?thesis
  proof (intro exI [of _ i] conjI)
    show "i < length (availableSkills s)" by (rule i)
    show "toLowerCase js (skill_name (availableSkills s ! i)) =
      toLowerCase js (desired_skill waitingSkill)" by (rule m)
    show "\<forall>j < i. toLowerCase js (skill_name (availableSkills s ! j)) \<noteq>
      toLowerCase js (desired_skill waitingSkill)" by (rule n)
  qed (simp add: f Let_def handleTeachSkill_def handleTeachSkill_try_def
      handleTeachSkill_remove_def split: promise.splits option.splits)
qed

theorem teach_offer_match_witness:
  "map (\<lambda>skill. toLowerCase latin1_runtime (skill_name skill)) (availableSkills ex_state) =
     [''chess'', ''pottery'', ''pottery''] \<and>
   toLowerCase latin1_runtime (desired_skill ex_entry) = ''pottery'' \<and>
   handleTeachSkill latin1_runtime (Some ex_user) ok_remote ex_state ex_entry =
     [SetIsLoading True,
      Call_insert_user_skills \<lparr>row_user_id = ''u1'', row_skill_id = ''s2'', row_type = ''teach''\<rparr>,
      Call_removeFromWaitingList ''w1'', SetWaitingSkills_filter ''w1'',
      Toast \<lparr>title = ''Success'', toast_description = ''You've offered to teach Pottery'',
             variant = Some ''default''\<rparr>,
      SetIsLoading False] \<and>
   waitingSkills
     (run ex_state (handleTeachSkill latin1_runtime (Some ex_user) ok_remote ex_state ex_entry)) =
     [ex_entry_unlisted]"
proof -
  have h: "\<exists>skill \<in> set (availableSkills ex_state).
      toLowerCase latin1_runtime (skill_name skill) =
      toLowerCase latin1_runtime (desired_skill ex_entry)"
    by (simp add: ex_defs ex_lower)
  from teach_offer_match [OF h, where u = ex_user and r = ok_remote]
  obtain i where i: "i < length (availableSkills ex_state)"
    and m: "toLowerCase latin1_runtime (skill_name (availableSkills ex_state ! i)) =
      toLowerCase latin1_runtime (desired_skill ex_entry)"
    and n: "\<forall>j < i. toLowerCase latin1_runtime (skill_name (availableSkills ex_state ! j)) \<noteq>
      toLowerCase latin1_runtime (desired_skill ex_entry)"
    and body: "handleTeachSkill latin1_runtime (Some ex_user) ok_remote ex_state ex_entry =
      [SetIsLoading True,
       Call_insert_user_skills
         \<lparr>row_user_id = user_id ex_user, row_skill_id = skill_id (availableSkills ex_state ! i),
          row_type = ''teach''\<rparr>,
       Call_removeFromWaitingList (entry_id ex_entry),
       SetWaitingSkills_filter (entry_id ex_entry),
       Toast \<lparr>title = ''Success'',
              toast_description = ''You've offered to teach '' @ desired_skill ex_entry,
              variant = Some ''default''\<rparr>,
       SetIsLoading False]"
    and cache: "waitingSkills
      (run ex_state (handleTeachSkill latin1_runtime (Some ex_user) ok_remote ex_state ex_entry)) =
      filter (\<lambda>ws. entry_id ws \<noteq> entry_id ex_entry) (waitingSkills ex_state)"
    by (auto simp add: Let_def ok_remote_def)
  have "i \<noteq> 0"
  proof
    assume "i = 0"
    with m show False by (simp add: ex_defs ex_lower)
  qed
  moreover have "i \<noteq> 2" using n ex_first_match(2) by auto
  moreover have "i < 3" using i by (simp add: ex_defs)
  ultimately have "i = 1" by arith
  with body cache show ?thesis by (simp add: ex_defs ex_lower)
qed

text \<open>
  C2. Item \<open>i\<close> is the first catalog item whose name equals the entry's
  \<open>desired_skill\<close> after \<open>toLowerCase\<close>; the insert of the association with it
  succeeds, and the removal from the remote store is rejected. The handler logs the
  error and shows the error toast; the cached list is unchanged, so the entry stays
  listed; and the handler makes no remote call after the failed removal, so the
  inserted association is not undone.
\<close>

theorem teach_offer_removal_fails:
  "i < length (availableSkills s) \<Longrightarrow>
   toLowerCase js (skill_name (availableSkills s ! i)) =
     toLowerCase js (desired_skill waitingSkill) \<Longrightarrow>
   \<forall>j < i. toLowerCase js (skill_name (availableSkills s ! j)) \<noteq>
     toLowerCase js (desired_skill waitingSkill) \<Longrightarrow>
   row = \<lparr>row_user_id = user_id u, row_skill_id = skill_id (availableSkills s ! i),
          row_type = ''teach''\<rparr> \<Longrightarrow>
   insert_user_skills r row = Resolved None \<Longrightarrow>
   removeFromWaitingList r (entry_id waitingSkill) = Rejected error \<Longrightarrow>
   handleTeachSkill js (Some u) r s waitingSkill =
     [SetIsLoading True, Call_insert_user_skills row,
      Call_removeFromWaitingList (entry_id waitingSkill),
      ConsoleError ''Error offering skill:'' error,
      Toast \<lparr>title = ''Error'',
             toast_description = ''Could not offer this skill. Please try again.'',
             variant = Some ''destructive''\<rparr>,
      SetIsLoading False] \<and>
   remote_calls (handleTeachSkill js (Some u) r s waitingSkill) =
     [Call_insert_user_skills row, Call_removeFromWaitingList (entry_id waitingSkill)] \<and>
   waitingSkills (run s (handleTeachSkill js (Some u) r s waitingSkill)) = waitingSkills s"
  using find_skillItem_first [of i "availableSkills s" js waitingSkill]
  by (simp add: handleTeachSkill_def handleTeachSkill_try_def handleTeachSkill_remove_def)

theorem teach_offer_removal_fails_witness:
  "insert_user_skills remove_fails_remote \<lparr>row_user_id = ''u1'', row_skill_id = ''s2'', row_type = ''teach''\<rparr> =
     Resolved None \<and>
   removeFromWaitingList remove_fails_remote (entry_id ex_entry) = Rejected (Error ''offline'') \<and>
   handleTeachSkill latin1_runtime (Some ex_user) remove_fails_remote ex_state ex_entry =
     [SetIsLoading True,
      Call_insert_user_skills \<lparr>row_user_id = ''u1'', row_skill_id = ''s2'', row_type = ''teach''\<rparr>,
      Call_removeFromWaitingList ''w1'',
      ConsoleError ''Error offering skill:'' (Error ''offline''),
      Toast \<lparr>title = ''Error'',
             toast_description = ''Could not offer this skill. Please try again.'',
             variant = Some ''destructive''\<rparr>,
      SetIsLoading False] \<and>
   waitingSkills
     (run ex_state
       (handleTeachSkill latin1_runtime (Some ex_user) remove_fails_remote ex_state ex_entry)) =
     [ex_entry, ex_entry_unlisted]"
  using teach_offer_removal_fails [OF ex_first_match(1,2,3),
      where u = ex_user and r = remove_fails_remote
      and row = "\<lparr>row_user_id = ''u1'', row_skill_id = ''s2'', row_type = ''teach''\<rparr>"
      and error = "Error ''offline''"] ex_first_match(4)
  by (simp add: ex_user_def ex_entry_def remove_fails_remote_def ok_remote_def
      ex_state_def)

text \<open>
  C4. A signed-in user offers to teach an entry, and no catalog item has the same
  name as the entry's \<open>desired_skill\<close> after \<open>toLowerCase\<close>. The handler issues no
  insert; its only remote call is the removal of the entry. When the removal succeeds
  the entry is filtered out of the cached list and the success toast is shown; when it
  fails the cached list is unchanged.
\<close>

theorem teach_offer_no_match:
  "\<forall>skill \<in> set (availableSkills s).
     toLowerCase js (skill_name skill) \<noteq> toLowerCase js (desired_skill waitingSkill) \<Longrightarrow>
   (let removed = (removeFromWaitingList r (entry_id waitingSkill) = Resolved ());
        T = handleTeachSkill js (Some u) r s waitingSkill
    in filter is_insert T = [] \<and>
       remote_calls T = [Call_removeFromWaitingList (entry_id waitingSkill)] \<and>
       (removed \<longrightarrow>
          T = [SetIsLoading True,
               Call_removeFromWaitingList (entry_id waitingSkill),
               SetWaitingSkills_filter (entry_id waitingSkill),
               Toast \<lparr>title = ''Success'',
                      toast_description =
                        ''You've offered to teach '' @ desired_skill waitingSkill,
                      variant = Some ''default''\<rparr>,
               SetIsLoading False]) \<and>
       waitingSkills (run s T) =
         (if removed
          then filter (\<lambda>ws. entry_id ws \<noteq> entry_id waitingSkill) (waitingSkills s)
          else waitingSkills s))"
  using find_skillItem_none [of "availableSkills s" js waitingSkill]
  by (simp add: Let_def handleTeachSkill_def handleTeachSkill_try_def
      handleTeachSkill_remove_def split: promise.splits option.splits)

theorem teach_offer_no_match_witness:
  "map (\<lambda>skill. toLowerCase latin1_runtime (skill_name skill)) (availableSkills ex_state) =
     [''chess'', ''pottery'', ''pottery''] \<and>
   toLowerCase latin1_runtime (desired_skill ex_entry_unlisted) = ''juggling'' \<and>
   handleTeachSkill latin1_runtime (Some ex_user) ok_remote ex_state ex_entry_unlisted =
     [SetIsLoading True, Call_removeFromWaitingList ''w2'', SetWaitingSkills_filter ''w2'',
      Toast \<lparr>title = ''Success'', toast_description = ''You've offered to teach Juggling'',
             variant = Some ''default''\<rparr>,
      SetIsLoading False] \<and>
   waitingSkills
     (run ex_state
       (handleTeachSkill latin1_runtime (Some ex_user) ok_remote ex_state ex_entry_unlisted)) =
     [ex_entry]"
  using teach_offer_no_match [OF ex_no_match, where u = ex_user and r = ok_remote]
  by (simp add: Let_def ex_user_def ex_entry_def ex_entry_unlisted_def ok_remote_def
      ex_state_def ex_catalog_def ex_lower)

text \<open>
  C5. Item \<open>i\<close> is the first catalog item whose name equals the entry's
  \<open>desired_skill\<close> after \<open>toLowerCase\<close>, and the insert of the association with it
  fails: the promise is rejected, or it resolves with an error. The handler logs the
  error and shows the error toast; the insert is its only remote call, so the removal
  of the entry is never requested; the cached list is unchanged.
\<close>

theorem teach_offer_insert_fails:
  "i < length (availableSkills s) \<Longrightarrow>
   toLowerCase js (skill_name (availableSkills s ! i)) =
     toLowerCase js (desired_skill waitingSkill) \<Longrightarrow>
   \<forall>j < i. toLowerCase js (skill_name (availableSkills s ! j)) \<noteq>
     toLowerCase js (desired_skill waitingSkill) \<Longrightarrow>
   row = \<lparr>row_user_id = user_id u, row_skill_id = skill_id (availableSkills s ! i),
          row_type = ''teach''\<rparr> \<Longrightarrow>
   insert_user_skills r row = Rejected error \<or>
   insert_user_skills r row = Resolved (Some error) \<Longrightarrow>
   handleTeachSkill js (Some u) r s waitingSkill =
     [SetIsLoading True, Call_insert_user_skills row,
      ConsoleError ''Error offering skill:'' error,
      Toast \<lparr>title = ''Error'',
             toast_description = ''Could not offer this skill. Please try again.'',
             variant = Some ''destructive''\<rparr>,
      SetIsLoading False] \<and>
   remote_calls (handleTeachSkill js (Some u) r s waitingSkill) =
     [Call_insert_user_skills row] \<and>
   waitingSkills (run s (handleTeachSkill js (Some u) r s waitingSkill)) = waitingSkills s"
  using find_skillItem_first [of i "availableSkills s" js waitingSkill]
  by (auto simp add: handleTeachSkill_def handleTeachSkill_try_def)

theorem teach_offer_insert_fails_witness:
  "insert_user_skills insert_fails_remote \<lparr>row_user_id = ''u1'', row_skill_id = ''s2'', row_type = ''teach''\<rparr> =
     Resolved (Some (Error ''duplicate key'')) \<and>
   handleTeachSkill latin1_runtime (Some ex_user) insert_fails_remote ex_state ex_entry =
     [SetIsLoading True,
      Call_insert_user_skills \<lparr>row_user_id = ''u1'', row_skill_id = ''s2'', row_type = ''teach''\<rparr>,
      ConsoleError ''Error offering skill:'' (Error ''duplicate key''),
      Toast \<lparr>title = ''Error'',
             toast_description = ''Could not offer this skill. Please try again.'',
             variant = Some ''destructive''\<rparr>,
      SetIsLoading False] \<and>
   waitingSkills
     (run ex_state
       (handleTeachSkill latin1_runtime (Some ex_user) insert_fails_remote ex_state ex_entry)) =
     [ex_entry, ex_entry_unlisted]"
  using teach_offer_insert_fails [OF ex_first_match(1,2,3),
      where u = ex_user and r = insert_fails_remote
      and row = "\<lparr>row_user_id = ''u1'', row_skill_id = ''s2'', row_type = ''teach''\<rparr>"
      and error = "Error ''duplicate key''"] ex_first_match(4)
  by (simp add: ex_user_def ex_entry_def insert_fails_remote_def ok_remote_def
      ex_state_def)

subsection \<open>Actions without a signed-in user\<close>

text \<open>
  C3, as the code has it. With no user signed in, none of the three mutating actions
  issues a remote call. The full-form submit shows the toast "Please sign in to add a
  skill to the waiting list" and does nothing else; the quick-add submit and the
  teach-offer return at once with no effect at all, so no toast either.
\<close>

theorem unauthenticated_actions:
  "handleTeachSkill js None r s waitingSkill = [] \<and>
   handleAddToWaitingList js None r s = [] \<and>
   handleAddSkill js None r s =
     [PreventDefault,
      Toast \<lparr>title = ''Error'',
             toast_description = ''Please sign in to add a skill to the waiting list'',
             variant = Some ''destructive''\<rparr>] \<and>
   remote_calls (handleTeachSkill js None r s waitingSkill) = [] \<and>
   remote_calls (handleAddToWaitingList js None r s) = [] \<and>
   remote_calls (handleAddSkill js None r s) = []"
  by (simp add: handleTeachSkill_def handleAddToWaitingList_def handleAddSkill_def)

theorem unauthenticated_actions_witness:
  "toasts (handleAddSkill latin1_runtime None ok_remote ex_state) =
     [Toast \<lparr>title = ''Error'',
             toast_description = ''Please sign in to add a skill to the waiting list'',
             variant = Some ''destructive''\<rparr>] \<and>
   run ex_state (handleAddToWaitingList latin1_runtime None ok_remote ex_state) = ex_state \<and>
   run ex_state (handleTeachSkill latin1_runtime None ok_remote ex_state ex_entry) = ex_state"
  using unauthenticated_actions
      [where js = latin1_runtime and r = ok_remote and s = ex_state and waitingSkill = ex_entry]
  by simp

text \<open>
  C3, as the claim has it, fails: with no user signed in, the teach-offer and the
  quick-add submit show no toast.
\<close>

theorem unauthenticated_toast_counterexample:
  "toasts (handleTeachSkill latin1_runtime None ok_remote ex_state ex_entry) = [] \<and>
   toasts (handleAddToWaitingList latin1_runtime None ok_remote ex_state) = []"
  by (simp add: handleTeachSkill_def handleAddToWaitingList_def)

subsection \<open>Submitting a request\<close>

text \<open>
  C6. A signed-in user submits the full form with a skill name that is empty after
  trimming, or with no category selected. The handler shows the toast "Please fill in
  all required fields" and does nothing else: no remote call, no change of state.
\<close>

theorem full_form_validation:
  "trim js (skillName s) = [] \<or> category s = [] \<Longrightarrow>
   handleAddSkill js (Some u) r s =
     [PreventDefault,
      Toast \<lparr>title = ''Error'', toast_description = ''Please fill in all required fields'',
             variant = Some ''destructive''\<rparr>] \<and>
   remote_calls (handleAddSkill js (Some u) r s) = [] \<and>
   run s (handleAddSkill js (Some u) r s) = s"
  by (auto simp add: handleAddSkill_def)

theorem full_form_validation_witness:
  "trim latin1_runtime (skillName ex_state_blank_name) = [] \<and>
   category ex_state_blank_name \<noteq> [] \<and>
   handleAddSkill latin1_runtime (Some ex_user) ok_remote ex_state_blank_name =
     [PreventDefault,
      Toast \<lparr>title = ''Error'', toast_description = ''Please fill in all required fields'',
             variant = Some ''destructive''\<rparr>] \<and>
   trim latin1_runtime (skillName ex_state_no_category) \<noteq> [] \<and>
   category ex_state_no_category = [] \<and>
   handleAddSkill latin1_runtime (Some ex_user) ok_remote ex_state_no_category =
     [PreventDefault,
      Toast \<lparr>title = ''Error'', toast_description = ''Please fill in all required fields'',
             variant = Some ''destructive''\<rparr>] \<and>
   remote_calls (handleAddSkill latin1_runtime (Some ex_user) ok_remote ex_state_no_category) = []"
proof -
  have blank: "trim latin1_runtime (skillName ex_state_blank_name) = []"
    by (simp add: ex_defs ex_trim)
  have named: "trim latin1_runtime (skillName ex_state_no_category) \<noteq> []"
    by (simp add: ex_defs ex_trim)
  have cat: "category ex_state_blank_name \<noteq> []" "category ex_state_no_category = []"
    by (simp_all add: ex_defs)
  from blank have h1:
    "trim latin1_runtime (skillName ex_state_blank_name) = [] \<or> category ex_state_blank_name = []"
    by (rule disjI1)
  from cat(2) have h2:
    "trim latin1_runtime (skillName ex_state_no_category) = [] \<or>
     category ex_state_no_category = []"
    by (rule disjI2)
  show ?thesis
    using blank named cat
      full_form_validation [OF h1, where u = ex_user and r = ok_remote]
      full_form_validation [OF h2, where u = ex_user and r = ok_remote]
    by simp
qed

text \<open>
  C8. A signed-in user submits a valid request and the remote add resolves with
  \<open>success\<close> true. Quick-add: the handler then runs the waiting-list load, clears
  \<open>newSkill\<close> and shows the success toast. Full form: it runs the load, clears
  \<open>skillName\<close>, \<open>category\<close> and \<open>description\<close> and shows the success toast. The
  remote calls are the add followed by the fetch; the cached list afterwards is the
  fetched one (the old one if the fetch failed), never the old one with an entry added.
\<close>

theorem successful_submission:
  "(trim js (newSkill s) \<noteq> [] \<and>
    addToWaitingList r (email_or_empty u) (trim js (newSkill s)) None (user_id u) = Resolved True \<longrightarrow>
      (let T = handleAddToWaitingList js (Some u) r s
       in T = [SetIsLoading True,
               Call_addToWaitingList (email_or_empty u) (trim js (newSkill s)) None (user_id u)] @
              fetchWaitingSkills r @
              [SetNewSkill [],
               Toast \<lparr>title = ''Success'', toast_description = ''Skill added to waiting list'',
                      variant = None\<rparr>,
               SetIsLoading False] \<and>
          remote_calls T =
            [Call_addToWaitingList (email_or_empty u) (trim js (newSkill s)) None (user_id u),
             Call_fetchWaitingListEntries] \<and>
          waitingSkills (run s T) =
            (case fetchWaitingListEntries r of
               Resolved data \<Rightarrow> data
             | Rejected error \<Rightarrow> waitingSkills s) \<and>
          newSkill (run s T) = [])) \<and>
   (trim js (skillName s) \<noteq> [] \<and> category s \<noteq> [] \<and>
    addToWaitingList r (email_or_empty u) (trim js (skillName s)) (Some (category s)) (user_id u) =
      Resolved True \<longrightarrow>
      (let T = handleAddSkill js (Some u) r s
       in T = [PreventDefault, SetIsLoading True,
               Call_addToWaitingList (email_or_empty u) (trim js (skillName s))
                 (Some (category s)) (user_id u)] @
              fetchWaitingSkills r @
              [SetSkillName [], SetCategory [], SetDescription [],
               Toast \<lparr>title = ''Success'', toast_description = ''Skill added to waiting list'',
                      variant = None\<rparr>,
               SetIsLoading False] \<and>
          remote_calls T =
            [Call_addToWaitingList (email_or_empty u) (trim js (skillName s))
               (Some (category s)) (user_id u),
             Call_fetchWaitingListEntries] \<and>
          waitingSkills (run s T) =
            (case fetchWaitingListEntries r of
               Resolved data \<Rightarrow> data
             | Rejected error \<Rightarrow> waitingSkills s) \<and>
          skillName (run s T) = [] \<and> category (run s T) = [] \<and> description (run s T) = []))"
  by (simp add: Let_def handleAddToWaitingList_def handleAddSkill_def run_fetchWaitingSkills
      remote_calls_fetchWaitingSkills split: promise.splits)

theorem successful_submission_witness:
  "trim latin1_runtime (newSkill ex_state) \<noteq> [] \<and> trim latin1_runtime (skillName ex_state) \<noteq> [] \<and> category ex_state \<noteq> [] \<and>
   remote_calls (handleAddToWaitingList latin1_runtime (Some ex_user) ok_remote ex_state) =
     [Call_addToWaitingList ''ann@example.org'' ''Knitting'' None ''u1'',
      Call_fetchWaitingListEntries] \<and>
   newSkill (run ex_state (handleAddToWaitingList latin1_runtime (Some ex_user) ok_remote ex_state)) = [] \<and>
   remote_calls (handleAddSkill latin1_runtime (Some ex_user) ok_remote ex_state) =
     [Call_addToWaitingList ''ann@example.org'' ''Pottery'' (Some ''Arts & Crafts'') ''u1'',
      Call_fetchWaitingListEntries] \<and>
   waitingSkills (run ex_state (handleAddSkill latin1_runtime (Some ex_user) ok_remote ex_state)) =
     [ex_entry_unlisted] \<and>
   skillName (run ex_state (handleAddSkill latin1_runtime (Some ex_user) ok_remote ex_state)) = [] \<and>
   category (run ex_state (handleAddSkill latin1_runtime (Some ex_user) ok_remote ex_state)) = [] \<and>
   description (run ex_state (handleAddSkill latin1_runtime (Some ex_user) ok_remote ex_state)) = []"
  using successful_submission
      [where js = latin1_runtime and s = ex_state and r = ok_remote and u = ex_user]
  by (simp add: Let_def ex_defs email_or_empty_def string_defs run_fetchWaitingSkills
      remote_calls_fetchWaitingSkills)

text \<open>
  C9. A signed-in user submits a valid request and the remote add resolves with
  \<open>success\<close> false. The handler sets the loading flag, calls the add and clears the
  flag: no fetch, no toast, and the state afterwards is the state before with the
  loading flag cleared, so every form field is as it was.
\<close>

theorem refused_submission:
  "(trim js (newSkill s) \<noteq> [] \<and>
    addToWaitingList r (email_or_empty u) (trim js (newSkill s)) None (user_id u) = Resolved False \<longrightarrow>
      (let T = handleAddToWaitingList js (Some u) r s
       in T = [SetIsLoading True,
               Call_addToWaitingList (email_or_empty u) (trim js (newSkill s)) None (user_id u),
               SetIsLoading False] \<and>
          toasts T = [] \<and>
          run s T = s\<lparr>isLoading := False\<rparr>)) \<and>
   (trim js (skillName s) \<noteq> [] \<and> category s \<noteq> [] \<and>
    addToWaitingList r (email_or_empty u) (trim js (skillName s)) (Some (category s)) (user_id u) =
      Resolved False \<longrightarrow>
      (let T = handleAddSkill js (Some u) r s
       in T = [PreventDefault, SetIsLoading True,
               Call_addToWaitingList (email_or_empty u) (trim js (skillName s))
                 (Some (category s)) (user_id u),
               SetIsLoading False] \<and>
          toasts T = [] \<and>
          run s T = s\<lparr>isLoading := False\<rparr>))"
  by (simp add: Let_def handleAddToWaitingList_def handleAddSkill_def)

theorem refused_submission_witness:
  "trim latin1_runtime (newSkill ex_state) \<noteq> [] \<and> trim latin1_runtime (skillName ex_state) \<noteq> [] \<and> category ex_state \<noteq> [] \<and>
   handleAddToWaitingList latin1_runtime (Some ex_user) add_refused_remote ex_state =
     [SetIsLoading True, Call_addToWaitingList ''ann@example.org'' ''Knitting'' None ''u1'',
      SetIsLoading False] \<and>
   handleAddSkill latin1_runtime (Some ex_user) add_refused_remote ex_state =
     [PreventDefault, SetIsLoading True,
      Call_addToWaitingList ''ann@example.org'' ''Pottery'' (Some ''Arts & Crafts'') ''u1'',
      SetIsLoading False] \<and>
   newSkill (run ex_state (handleAddToWaitingList latin1_runtime (Some ex_user) add_refused_remote ex_state)) =
     '' Knitting ''"
  using refused_submission
      [where js = latin1_runtime and s = ex_state and r = add_refused_remote and u = ex_user]
  by (simp add: Let_def ex_defs email_or_empty_def string_defs)

subsection \<open>Loading the waiting list\<close>

text \<open>
  C7. The waiting-list load. If the fetch is rejected, the handler logs the error and
  shows the toast "Failed to load waiting skills", and the cached list is unchanged.
  If the fetch resolves, the cached list is replaced by the fetched one. The loading
  flag is set before the fetch is called, stays set after every effect but the last,
  and is cleared by the last.
\<close>

theorem load_waiting_list:
  "(\<forall>error. fetchWaitingListEntries r = Rejected error \<longrightarrow>
      fetchWaitingSkills r =
        [SetIsLoading True, Call_fetchWaitingListEntries,
         ConsoleError ''Error fetching waiting skills:'' error,
         Toast \<lparr>title = ''Error'', toast_description = ''Failed to load waiting skills'',
                variant = Some ''destructive''\<rparr>,
         SetIsLoading False] \<and>
      waitingSkills (run s (fetchWaitingSkills r)) = waitingSkills s) \<and>
   (\<forall>data. fetchWaitingListEntries r = Resolved data \<longrightarrow>
      fetchWaitingSkills r =
        [SetIsLoading True, Call_fetchWaitingListEntries, SetWaitingSkills data,
         SetIsLoading False] \<and>
      waitingSkills (run s (fetchWaitingSkills r)) = data) \<and>
   (\<forall>n. 0 < n \<and> n < length (fetchWaitingSkills r) \<longrightarrow>
      isLoading (run s (take n (fetchWaitingSkills r)))) \<and>
   \<not> isLoading (run s (fetchWaitingSkills r))"
  by (cases "fetchWaitingListEntries r")
    (auto simp add: fetchWaitingSkills_def take_Cons' less_Suc_eq)

theorem load_waiting_list_witness:
  "fetchWaitingListEntries fetch_fails_remote = Rejected (Error ''offline'') \<and>
   waitingSkills (run ex_state (fetchWaitingSkills fetch_fails_remote)) =
     [ex_entry, ex_entry_unlisted] \<and>
   fetchWaitingListEntries ok_remote = Resolved [ex_entry_unlisted] \<and>
   waitingSkills (run ex_state (fetchWaitingSkills ok_remote)) = [ex_entry_unlisted] \<and>
   0 < (2::nat) \<and> 2 < length (fetchWaitingSkills ok_remote) \<and>
   isLoading (run ex_state (take 2 (fetchWaitingSkills ok_remote)))"
  using load_waiting_list [of fetch_fails_remote ex_state]
    load_waiting_list [of ok_remote ex_state]
  by (simp add: ex_defs)

subsection \<open>The loading flag\<close>

text \<open>
  C10. An operation (waiting-list load, quick-add, full-form submit, teach-offer) that
  calls \<open>setIsLoading(true)\<close> ends with \<open>setIsLoading(false)\<close>, whatever the remote
  calls return, and leaves the flag cleared. The same holds when several operations
  are in flight: after any interleaving of their effects in which the flag was set,
  the flag is cleared.
\<close>

theorem loading_flag_reset:
  "(t \<in> operation_traces \<and> SetIsLoading True \<in> set t \<longrightarrow>
      last t = SetIsLoading False \<and> \<not> isLoading (run s t)) \<and>
   ((\<forall>t \<in> set ts. t \<in> operation_traces) \<and> interleaving ts es \<and> SetIsLoading True \<in> set es \<longrightarrow>
      \<not> isLoading (run s es))"
proof (intro conjI impI)
  assume a: "t \<in> operation_traces \<and> SetIsLoading True \<in> set t"
  then show "last t = SetIsLoading False" by (simp add: operation_last)
  from a have "last_loading t \<noteq> None" "last_loading t \<noteq> Some True"
    by (auto simp: last_loading_None_iff operation_resets)
  then show "\<not> isLoading (run s t)" by (auto simp: isLoading_run split: option.splits)
next
  assume a: "(\<forall>t \<in> set ts. t \<in> operation_traces) \<and> interleaving ts es \<and> SetIsLoading True \<in> set es"
  then have "\<forall>t \<in> set ts. last_loading t \<noteq> Some True" by (simp add: operation_resets)
  with a have "last_loading es \<noteq> Some True" using interleaving_resets by blast
  moreover from a have "last_loading es \<noteq> None" by (auto simp: last_loading_None_iff)
  ultimately show "\<not> isLoading (run s es)" by (auto simp: isLoading_run split: option.splits)
qed

theorem loading_flag_reset_witness:
  "fetchWaitingSkills fetch_fails_remote \<in> operation_traces \<and>
   SetIsLoading True \<in> set (fetchWaitingSkills fetch_fails_remote) \<and>
   last (fetchWaitingSkills fetch_fails_remote) = SetIsLoading False \<and>
   \<not> isLoading (run ex_state (fetchWaitingSkills fetch_fails_remote)) \<and>
   interleaving
     [fetchWaitingSkills ok_remote, handleTeachSkill latin1_runtime (Some ex_user) ok_remote ex_state ex_entry]
     [SetIsLoading True, SetIsLoading True,
      Call_insert_user_skills
        \<lparr>row_user_id = ''u1'', row_skill_id = ''s2'', row_type = ''teach''\<rparr>,
      Call_fetchWaitingListEntries, SetWaitingSkills [ex_entry_unlisted], SetIsLoading False,
      Call_removeFromWaitingList ''w1'', SetWaitingSkills_filter ''w1'',
      Toast \<lparr>title = ''Success'', toast_description = ''You've offered to teach Pottery'',
             variant = Some ''default''\<rparr>,
      SetIsLoading False] \<and>
   \<not> isLoading
     (run ex_state
       [SetIsLoading True, SetIsLoading True,
        Call_insert_user_skills
          \<lparr>row_user_id = ''u1'', row_skill_id = ''s2'', row_type = ''teach''\<rparr>,
        Call_fetchWaitingListEntries, SetWaitingSkills [ex_entry_unlisted], SetIsLoading False,
        Call_removeFromWaitingList ''w1'', SetWaitingSkills_filter ''w1'',
        Toast \<lparr>title = ''Success'', toast_description = ''You've offered to teach Pottery'',
               variant = Some ''default''\<rparr>,
        SetIsLoading False])"
proof -
  let ?load = "fetchWaitingSkills ok_remote"
  let ?teach = "handleTeachSkill latin1_runtime (Some ex_user) ok_remote ex_state ex_entry"
  let ?es = "[SetIsLoading True, SetIsLoading True,
      Call_insert_user_skills
        \<lparr>row_user_id = ''u1'', row_skill_id = ''s2'', row_type = ''teach''\<rparr>,
      Call_fetchWaitingListEntries, SetWaitingSkills [ex_entry_unlisted], SetIsLoading False,
      Call_removeFromWaitingList ''w1'', SetWaitingSkills_filter ''w1'',
      Toast \<lparr>title = ''Success'', toast_description = ''You've offered to teach Pottery'',
             variant = Some ''default''\<rparr>,
      SetIsLoading False]"
  have ops: "\<forall>t \<in> set [?load, ?teach]. t \<in> operation_traces"
    by (simp add: operation_traces.intros)
  have load: "?load = [SetIsLoading True, Call_fetchWaitingListEntries,
      SetWaitingSkills [ex_entry_unlisted], SetIsLoading False]"
    by (simp add: fetchWaitingSkills_def ok_remote_def)
  have teach: "?teach = [SetIsLoading True,
      Call_insert_user_skills
        \<lparr>row_user_id = ''u1'', row_skill_id = ''s2'', row_type = ''teach''\<rparr>,
      Call_removeFromWaitingList ''w1'', SetWaitingSkills_filter ''w1'',
      Toast \<lparr>title = ''Success'', toast_description = ''You've offered to teach Pottery'',
             variant = Some ''default''\<rparr>,
      SetIsLoading False]"
    using ex_match
    by (simp add: handleTeachSkill_def handleTeachSkill_try_def handleTeachSkill_remove_def
        ok_remote_def ex_user_def ex_entry_def)
  have inter: "interleaving [?load, ?teach] ?es"
    unfolding load teach
    apply (rule interleaving_left)
    apply (rule interleaving_right)
    apply (rule interleaving_right)
    apply (rule interleaving_left)
    apply (rule interleaving_left)
    apply (rule interleaving_left)
    apply (rule interleaving_right)
    apply (rule interleaving_right)
    apply (rule interleaving_right)
    apply (rule interleaving_right)
    apply simp
    done
  have one: "fetchWaitingSkills fetch_fails_remote \<in> operation_traces"
    by (rule operation_traces.load)
  have set1: "SetIsLoading True \<in> set (fetchWaitingSkills fetch_fails_remote)"
    by (simp add: fetchWaitingSkills_def)
  have set2: "SetIsLoading True \<in> set ?es" by simp
  note main = loading_flag_reset
    [of "fetchWaitingSkills fetch_fails_remote" ex_state "[?load, ?teach]" ?es]
  have single:
    "last (fetchWaitingSkills fetch_fails_remote) = SetIsLoading False \<and>
     \<not> isLoading (run ex_state (fetchWaitingSkills fetch_fails_remote))"
    using main [THEN conjunct1, THEN mp, OF conjI [OF one set1]] .
  have merged: "\<not> isLoading (run ex_state ?es)"
    using main [THEN conjunct2, THEN mp, OF conjI [OF ops conjI [OF inter set2]]] .
  from one set1 single inter merged show ?thesis
    by (intro conjI) (erule conjunct1 conjunct2 | assumption)+
qed

end
